theory Spec2Isabelle
  imports Main "HOL-Library.Multiset"
begin

section \<open>Python values, errors and strings\<close>

text \<open>
  The module \<^verbatim>\<open>nltk/tag/brill/template.py\<close> is embedded function by function.
  Exceptions are values of the type \<open>error\<close>; a function that may raise returns
  \<open>error + 'a\<close> with \<open>Inl\<close> for the exception.
\<close>

datatype error = TypeError | ValueError | IndexError | NotImplementedError

text \<open>
  The constructors of \<^verbatim>\<open>Feature\<close> and \<^verbatim>\<open>Template\<close> inspect the dynamic
  type of their arguments. The fragment of Python values they are modelled on: integers,
  strings, \<^verbatim>\<open>None\<close>, lists and tuples.
\<close>

datatype pyval = PInt int | PStr string | PNone | PList "pyval list" | PTuple "pyval list"

text \<open>
  \<^verbatim>\<open>int(v)\<close>: the identity on an integer; on a string the interpreter's own
  parser, which either returns an integer or raises \<^verbatim>\<open>ValueError\<close> (the parser is the
  parameter \<open>atoi\<close>); \<^verbatim>\<open>TypeError\<close> on \<^verbatim>\<open>None\<close>, a list or a tuple.
\<close>

type_synonym atoi = "string \<Rightarrow> int option"

fun py_int :: "atoi \<Rightarrow> pyval \<Rightarrow> error + int" where
  "py_int atoi (PInt n) = Inr n"
| "py_int atoi (PStr s) = (case atoi s of None \<Rightarrow> Inl ValueError | Some n \<Rightarrow> Inr n)"
| "py_int atoi PNone = Inl TypeError"
| "py_int atoi (PList xs) = Inl TypeError"
| "py_int atoi (PTuple xs) = Inl TypeError"

text \<open>Iterating a value: lists, tuples and strings are iterable, the rest raises.\<close>

fun py_iter :: "pyval \<Rightarrow> error + pyval list" where
  "py_iter (PList xs) = Inr xs"
| "py_iter (PTuple xs) = Inr xs"
| "py_iter (PStr s) = Inr (map (\<lambda>c. PStr [c]) s)"
| "py_iter (PInt n) = Inl TypeError"
| "py_iter PNone = Inl TypeError"

text \<open>A list comprehension whose element expression may raise stops at the first error.\<close>

fun map_err :: "('a \<Rightarrow> error + 'b) \<Rightarrow> 'a list \<Rightarrow> error + 'b list" where
  "map_err f [] = Inr []"
| "map_err f (x # xs) =
     (case f x of
        Inl e \<Rightarrow> Inl e
      | Inr y \<Rightarrow> (case map_err f xs of Inl e \<Rightarrow> Inl e | Inr ys \<Rightarrow> Inr (y # ys)))"

text \<open>
  Python compares strings and tuples lexicographically: the first position where the two
  differ decides, and a proper prefix is smaller.
\<close>

fun lex_lt :: "('a \<Rightarrow> 'a \<Rightarrow> bool) \<Rightarrow> 'a list \<Rightarrow> 'a list \<Rightarrow> bool" where
  "lex_lt lt [] [] = False"
| "lex_lt lt [] (y # ys) = True"
| "lex_lt lt (x # xs) [] = False"
| "lex_lt lt (x # xs) (y # ys) = (if x = y then lex_lt lt xs ys else lt x y)"

definition str_lt :: "string \<Rightarrow> string \<Rightarrow> bool" where
  "str_lt = lex_lt (\<lambda>a b. (of_char a :: nat) < of_char b)"

definition tuple_lt :: "int list \<Rightarrow> int list \<Rightarrow> bool" where
  "tuple_lt = lex_lt (\<lambda>a b. a < b)"

text \<open>Decimal numerals, as \<^verbatim>\<open>str\<close>, \<^verbatim>\<open>repr\<close> and \<^verbatim>\<open>format\<close> print them.\<close>

definition digit :: "nat \<Rightarrow> char" where
  "digit d = char_of (48 + d)"

fun str_nat :: "nat \<Rightarrow> string" where
  "str_nat n = (if n < 10 then [digit n] else str_nat (n div 10) @ [digit (n mod 10)])"

declare str_nat.simps [simp del]

definition str_int :: "int \<Rightarrow> string" where
  "str_int i = (if i < 0 then CHR ''-'' # str_nat (nat (- i)) else str_nat (nat i))"

text \<open>\<^verbatim>\<open>"{0:03d}".format(n)\<close>: at least three digits, padded with zeros on the left.\<close>

definition fmt03d :: "nat \<Rightarrow> string" where
  "fmt03d n = replicate (3 - length (str_nat n)) CHR ''0'' @ str_nat n"

text \<open>Reading a numeral back; used to compare ids as numbers.\<close>

definition nat_of_str :: "string \<Rightarrow> nat" where
  "nat_of_str s = foldl (\<lambda>a c. 10 * a + (of_char c - 48)) 0 s"

text \<open>\<^verbatim>\<open>sep.join(parts)\<close>.\<close>

fun join :: "string \<Rightarrow> string list \<Rightarrow> string" where
  "join sep [] = []"
| "join sep [x] = x"
| "join sep (x # y # ys) = x @ sep @ join sep (y # ys)"

section \<open>Feature\<close>

text \<open>
  A subclass of \<^verbatim>\<open>Feature\<close> is a class object with a name; two different classes may
  carry the same name, so the class has an identity of its own. \<^verbatim>\<open>a.__class__ is
  b.__class__\<close> is equality of the class values, \<^verbatim>\<open>__class__.__name__\<close> is
  \<open>class_name\<close>.
\<close>

datatype pyclass = PyClass (class_ident: nat) (class_name: string)

record feature =
  fclass :: pyclass
  positions :: "int list"

text \<open>
  \<^verbatim>\<open>Feature.__init__(self, positions, end=None)\<close>. With \<^verbatim>\<open>end is None\<close> the argument
  is iterated and every element passed through \<^verbatim>\<open>int\<close>, with no handler around it.
  Otherwise the two arguments are the ends of an inclusive range: \<^verbatim>\<open>positions > end\<close>
  raises, and so does \<^verbatim>\<open>range\<close> or \<^verbatim>\<open>end+1\<close> on anything but integers; the handler
  turns each of these into \<^verbatim>\<open>ValueError\<close>.
\<close>

definition Feature_init :: "atoi \<Rightarrow> pyclass \<Rightarrow> pyval \<Rightarrow> pyval \<Rightarrow> error + feature" where
  "Feature_init atoi cls pos end =
     (if end = PNone then
        (case py_iter pos of
           Inl e \<Rightarrow> Inl e
         | Inr xs \<Rightarrow>
             (case map_err (py_int atoi) xs of
                Inl e \<Rightarrow> Inl e
              | Inr ns \<Rightarrow> Inr \<lparr>fclass = cls, positions = sort (remdups ns)\<rparr>))
      else
        (case (pos, end) of
           (PInt s, PInt e) \<Rightarrow>
             if s > e then Inl ValueError
             else Inr \<lparr>fclass = cls, positions = [s..e]\<rparr>
         | _ \<Rightarrow> Inl ValueError))"

text \<open>
  The constructor also sets \<^verbatim>\<open>PROPERTY_NAME\<close> and \<^verbatim>\<open>yaml_tag\<close>, two strings
  computed from the class alone; no function below reads them and they are left out.
\<close>

text \<open>\<^verbatim>\<open>issuperset\<close> and \<^verbatim>\<open>intersects\<close> (the latter read as a truth value).\<close>

definition issuperset :: "feature \<Rightarrow> feature \<Rightarrow> bool" where
  "issuperset x y = (fclass x = fclass y \<and> set (positions y) \<subseteq> set (positions x))"

definition intersects :: "feature \<Rightarrow> feature \<Rightarrow> bool" where
  "intersects x y = (fclass x = fclass y \<and> set (positions x) \<inter> set (positions y) \<noteq> {})"

text \<open>\<^verbatim>\<open>Feature.__eq__\<close> and \<^verbatim>\<open>Feature.__lt__\<close>, as written in the source.\<close>

definition feature_eq :: "feature \<Rightarrow> feature \<Rightarrow> bool" where
  "feature_eq a b = (fclass a = fclass b \<and> positions a = positions b)"

definition feature_lt :: "feature \<Rightarrow> feature \<Rightarrow> bool" where
  "feature_lt a b =
     (str_lt (class_name (fclass a)) (class_name (fclass b)) \<or>
      tuple_lt (positions a) (positions b))"

text \<open>
  The order the specification describes: the class name is the primary key, the positions
  tuple the secondary one.
\<close>

definition spec_feature_lt :: "feature \<Rightarrow> feature \<Rightarrow> bool" where
  "spec_feature_lt a b =
     (str_lt (class_name (fclass a)) (class_name (fclass b)) \<or>
      (class_name (fclass a) = class_name (fclass b) \<and>
       tuple_lt (positions a) (positions b)))"

text \<open>\<^verbatim>\<open>Feature.__repr__\<close>: the class name and the list of positions, as in \<^verbatim>\<open>Word([0, 1])\<close>.\<close>

definition repr_int_list :: "int list \<Rightarrow> string" where
  "repr_int_list ns = ''['' @ join '', '' (map str_int ns) @ '']''"

definition feature_repr :: "feature \<Rightarrow> string" where
  "feature_repr f = class_name (fclass f) @ ''('' @ repr_int_list (positions f) @ '')''"

text \<open>Two feature classes and two features used as concrete inputs below.\<close>

definition Word :: pyclass where
  "Word = PyClass 1 ''Word''"

definition Pos :: pyclass where
  "Pos = PyClass 2 ''Pos''"

definition Word0 :: feature where
  "Word0 = \<lparr>fclass = Word, positions = [0]\<rparr>"

definition Pos1 :: feature where
  "Pos1 = \<lparr>fclass = Pos, positions = [1]\<rparr>"

section \<open>Template\<close>

text \<open>
  A template has its features and the id it was given at construction. The registry
  \<^verbatim>\<open>Template.ALLTEMPLATES\<close> is a list of templates, passed to and returned by every
  function that reads or changes it.
\<close>

record template =
  features :: "feature list"
  id_str :: string

text \<open>
  An argument of \<^verbatim>\<open>Template(*features)\<close>: an instance of a \<^verbatim>\<open>Feature\<close> subclass, a
  subclass of \<^verbatim>\<open>Feature\<close> itself, some other class, or a value that is neither.
\<close>

datatype targ = Inst feature | FeatureClass pyclass | OtherClass | Obj pyval

text \<open>\<^verbatim>\<open>all(isinstance(f, Feature) for f in features)\<close>, with the instances when it holds.\<close>

fun instances :: "targ list \<Rightarrow> feature list option" where
  "instances [] = Some []"
| "instances (Inst f # as) = map_option (\<lambda>fs. f # fs) (instances as)"
| "instances (a # as) = None"

fun is_tuple :: "targ \<Rightarrow> bool" where
  "is_tuple (Obj (PTuple xs)) = True"
| "is_tuple a = False"

text \<open>
  \<^verbatim>\<open>features[0](*tp)\<close>: the constructor of the class applied to the elements of the
  tuple; it takes one or two arguments.
\<close>

fun call_feature :: "atoi \<Rightarrow> pyclass \<Rightarrow> targ \<Rightarrow> error + feature" where
  "call_feature atoi cls (Obj (PTuple [a])) = Feature_init atoi cls a PNone"
| "call_feature atoi cls (Obj (PTuple [a, b])) = Feature_init atoi cls a b"
| "call_feature atoi cls a = Inl TypeError"

text \<open>
  The first half of \<^verbatim>\<open>Template.__init__\<close>: the calling form is found and the features
  are built. \<^verbatim>\<open>issubclass\<close> raises \<^verbatim>\<open>TypeError\<close> on an argument that is not a
  class; on a class that is no subclass of \<^verbatim>\<open>Feature\<close>, and on a trailing argument that
  is no tuple, the \<^verbatim>\<open>else\<close> branch raises \<^verbatim>\<open>TypeError\<close>.
\<close>

definition build_features :: "atoi \<Rightarrow> targ list \<Rightarrow> error + feature list" where
  "build_features atoi args =
     (case instances args of
        Some fs \<Rightarrow> Inr fs
      | None \<Rightarrow>
          (case args of
             [] \<Rightarrow> Inl IndexError
           | FeatureClass c # rest \<Rightarrow>
               if list_all is_tuple rest then map_err (call_feature atoi c) rest
               else Inl TypeError
           | OtherClass # rest \<Rightarrow> Inl TypeError
           | Inst f # rest \<Rightarrow> Inl TypeError
           | Obj v # rest \<Rightarrow> Inl TypeError))"

text \<open>
  \<^verbatim>\<open>Template.__init__\<close>: an exception leaves the registry as it was; otherwise the id is
  the formatted length of the registry and the template is appended.
\<close>

definition Template_init ::
  "atoi \<Rightarrow> template list \<Rightarrow> targ list \<Rightarrow> (error + template) \<times> template list" where
  "Template_init atoi ALLTEMPLATES args =
     (case build_features atoi args of
        Inl e \<Rightarrow> (Inl e, ALLTEMPLATES)
      | Inr fs \<Rightarrow>
          (let self = \<lparr>features = fs, id_str = fmt03d (length ALLTEMPLATES)\<rparr>
           in (Inr self, ALLTEMPLATES @ [self])))"

text \<open>\<^verbatim>\<open>Template.poptemplate\<close>: the popped template (or \<^verbatim>\<open>None\<close>) and the registry left.\<close>

definition poptemplate :: "template list \<Rightarrow> template option \<times> template list" where
  "poptemplate ALLTEMPLATES =
     (if ALLTEMPLATES = [] then (None, ALLTEMPLATES)
      else (Some (last ALLTEMPLATES), butlast ALLTEMPLATES))"

text \<open>\<^verbatim>\<open>Template.__repr__\<close>.\<close>

definition template_repr :: "template \<Rightarrow> string" where
  "template_repr t = ''Template('' @ join '','' (map feature_repr (features t)) @ '')''"

subsection \<open>Rules applicable at a position\<close>


text \<open>
  \<^verbatim>\<open>Rule\<close> lives in another module; here it is the tuple of the constructor's arguments.
\<close>

datatype ('t, 'v) rule = Rule string 't 't "(feature \<times> 'v) list"





text \<open>
  \<^verbatim>\<open>itertools.product(*pools)\<close>, as the library documents it: start from the one empty
  tuple and extend every tuple by every element of the next pool.
\<close>

definition it_product :: "'a list list \<Rightarrow> 'a list list" where
  "it_product pools =
     foldl (\<lambda>result pool. concat (map (\<lambda>x. map (\<lambda>y. x @ [y]) pool) result)) [[]] pools"




subsection \<open>Neighbourhood of a position\<close>

text \<open>\<^verbatim>\<open>min\<close> and \<^verbatim>\<open>max\<close> of the non-empty list \<open>x # xs\<close>.\<close>

definition py_min :: "int \<Rightarrow> int list \<Rightarrow> int" where
  "py_min x xs = fold min xs x"

definition py_max :: "int \<Rightarrow> int list \<Rightarrow> int" where
  "py_max x xs = fold max xs x"

definition get_neighborhood :: "template \<Rightarrow> 'a list \<Rightarrow> int \<Rightarrow> int set" where
  "get_neighborhood t tokens index =
     (let rest = concat (map positions (features t));
          start = py_min 0 rest;
          end = py_max 0 rest;
          s = max 0 (index + (- end));
          e = min (index + (- start) + 1) (int (length tokens))
      in fold insert [s..e - 1] {index})"

text \<open>
  The offsets of the specification: the minimum and the maximum over 0 and every position
  of every feature of the template.
\<close>

definition all_offsets :: "template \<Rightarrow> int set" where
  "all_offsets t = insert 0 (\<Union> (set (map (\<lambda>f. set (positions f)) (features t))))"

definition min_off :: "template \<Rightarrow> int" where
  "min_off t = Min (all_offsets t)"

definition max_off :: "template \<Rightarrow> int" where
  "max_off t = Max (all_offsets t)"

subsection \<open>Concrete inputs\<close>


definition the_dog :: "(string \<times> string) list" where
  "the_dog = [(''the'', ''DT''), (''dog'', ''NN'')]"

definition Word_around :: template where
  "Word_around = \<lparr>features = [\<lparr>fclass = Word, positions = [-1, 0, 1]\<rparr>], id_str = ''000''\<rparr>"

subsection \<open>Generating features over windows\<close>





subsection \<open>Argument shapes of the constructor\<close>

text \<open>
  The argument shapes of the specification: (a) a sequence of feature instances; (b) a
  feature class followed by one or more tuples; and (b) with the tuples allowed to be
  none at all.
\<close>

fun is_instance :: "targ \<Rightarrow> bool" where
  "is_instance (Inst f) = True"
| "is_instance a = False"

definition shape_a :: "targ list \<Rightarrow> bool" where
  "shape_a args = list_all is_instance args"

fun shape_b :: "targ list \<Rightarrow> bool" where
  "shape_b (FeatureClass c # rest) = (rest \<noteq> [] \<and> list_all is_tuple rest)"
| "shape_b args = False"

fun shape_b0 :: "targ list \<Rightarrow> bool" where
  "shape_b0 (FeatureClass c # rest) = list_all is_tuple rest"
| "shape_b0 args = False"

subsection \<open>Generating templates\<close>

text \<open>
  \<^verbatim>\<open>sorted(pick)\<close> compares with \<^verbatim>\<open>__lt__\<close> alone and is stable. It is modelled as
  the insertion sort that puts each element before the first one it is smaller than; on
  a list of two elements this swaps them exactly when the second is smaller than the
  first, as the interpreter's sort does. The comparison is a parameter, because the one
  of the source is not an order.
\<close>

fun insert_lt :: "('a \<Rightarrow> 'a \<Rightarrow> bool) \<Rightarrow> 'a \<Rightarrow> 'a list \<Rightarrow> 'a list" where
  "insert_lt lt x [] = [x]"
| "insert_lt lt x (y # ys) = (if lt x y then x # y # ys else y # insert_lt lt x ys)"

definition py_sorted :: "('a \<Rightarrow> 'a \<Rightarrow> bool) \<Rightarrow> 'a list \<Rightarrow> 'a list" where
  "py_sorted lt xs = foldl (\<lambda>acc x. insert_lt lt x acc) [] xs"

text \<open>\<^verbatim>\<open>itertools.combinations(xs, r)\<close> for \<open>r \<ge> 0\<close>, in the order of the indices.\<close>

fun combinations :: "'a list \<Rightarrow> nat \<Rightarrow> 'a list list" where
  "combinations xs 0 = [[]]"
| "combinations [] (Suc r) = []"
| "combinations (x # xs) (Suc r) =
     map (\<lambda>c. x # c) (combinations xs r) @ combinations xs (Suc r)"

text \<open>The parameter \<^verbatim>\<open>combinations\<close>: \<^verbatim>\<open>None\<close>, an integer or a pair of integers.\<close>

datatype comb = CNone | CInt int | CPair int int

definition combrange :: "comb \<Rightarrow> nat \<Rightarrow> int \<times> int" where
  "combrange k n =
     (case k of
        CNone \<Rightarrow> (1, int n + 1)
      | CInt k \<Rightarrow> (k, k + 1)
      | CPair k1 k2 \<Rightarrow> (k1, k2 + 1))"

text \<open>
  \<^verbatim>\<open>any(i != j and p(x, y) for (i, x) in enumerate(pick) for (j, y) in enumerate(pick))\<close>.
\<close>

definition any_pair :: "('a \<Rightarrow> 'a \<Rightarrow> bool) \<Rightarrow> 'a list \<Rightarrow> bool" where
  "any_pair p pick =
     list_ex (\<lambda>(i, x). list_ex (\<lambda>(j, y). i \<noteq> j \<and> p x y) (enumerate 0 pick))
       (enumerate 0 pick)"

text \<open>
  The state of the generator: the strings seen, the templates yielded so far, the
  registry, and the exception that ended the iteration, if any.
\<close>

record expand_state =
  seentemplates :: "string set"
  yielded :: "template list"
  registry :: "template list"
  raised :: "error option"

text \<open>A \<^verbatim>\<open>for\<close> loop over the state; an exception in the body ends it.\<close>

fun for_each ::
  "('a \<Rightarrow> expand_state \<Rightarrow> expand_state) \<Rightarrow> 'a list \<Rightarrow> expand_state \<Rightarrow> expand_state" where
  "for_each body [] st = st"
| "for_each body (x # xs) st =
     (let st' = body x st in if raised st' = None then for_each body xs st' else st')"

text \<open>The body of the inner loop of \<^verbatim>\<open>Template.expand\<close>, for one \<^verbatim>\<open>pick\<close>.\<close>

definition expand_pick :: "atoi \<Rightarrow> bool \<Rightarrow> feature list \<Rightarrow> expand_state \<Rightarrow> expand_state" where
  "expand_pick atoi skipintersecting pick st =
     (if any_pair issuperset pick then st
      else if skipintersecting \<and> any_pair intersects pick then st
      else
        (case Template_init atoi (registry st) (map Inst (py_sorted feature_lt pick)) of
           (Inl e, reg) \<Rightarrow> st\<lparr>registry := reg, raised := Some e\<rparr>
         | (Inr thistemplate, reg) \<Rightarrow>
             (let strpick = template_repr thistemplate in
              if strpick \<in> seentemplates st
              then st\<lparr>registry := snd (poptemplate reg)\<rparr>
              else st\<lparr>seentemplates := insert strpick (seentemplates st),
                      yielded := yielded st @ [thistemplate],
                      registry := reg\<rparr>)))"

text \<open>
  The loop over \<^verbatim>\<open>it.product(*picks)\<close> for one selection of feature lists, and the loop
  over \<^verbatim>\<open>it.combinations(xs, r)\<close> for one size \<open>r\<close>; a negative \<open>r\<close> makes
  \<^verbatim>\<open>combinations\<close> raise \<^verbatim>\<open>ValueError\<close>.
\<close>

definition expand_picks ::
  "atoi \<Rightarrow> bool \<Rightarrow> feature list list \<Rightarrow> expand_state \<Rightarrow> expand_state" where
  "expand_picks atoi skipintersecting picks st =
     for_each (expand_pick atoi skipintersecting) (it_product picks) st"

definition expand_size ::
  "atoi \<Rightarrow> bool \<Rightarrow> feature list list \<Rightarrow> int \<Rightarrow> expand_state \<Rightarrow> expand_state" where
  "expand_size atoi skipintersecting featurelists r st =
     (if r < 0 then st\<lparr>raised := Some ValueError\<rparr>
      else for_each (expand_picks atoi skipintersecting) (combinations featurelists (nat r)) st)"

text \<open>
  \<^verbatim>\<open>Template.expand\<close>, consumed to its end from the registry \<open>ALLTEMPLATES\<close>: the
  templates yielded, in order, with the registry it leaves.
\<close>

definition Template_expand ::
  "atoi \<Rightarrow> feature list list \<Rightarrow> comb \<Rightarrow> bool \<Rightarrow> template list \<Rightarrow> expand_state" where
  "Template_expand atoi featurelists k skipintersecting ALLTEMPLATES =
     (case combrange k (length featurelists) of
        (lo, hi) \<Rightarrow>
          for_each (expand_size atoi skipintersecting featurelists) [lo..hi - 1]
            \<lparr>seentemplates = {}, yielded = [], registry = ALLTEMPLATES, raised = None\<rparr>)"

text \<open>
  The canonical form of a feature sequence in the specification: sorted by the order with
  the class name as primary key.
\<close>

definition canonical :: "feature list \<Rightarrow> feature list" where
  "canonical fs = py_sorted spec_feature_lt fs"

subsection \<open>Runs over the registry\<close>

text \<open>
  What a program does to the registry: it constructs a template, pops the last one, or
  consumes a call of \<^verbatim>\<open>Template.expand\<close>. A run starts with the empty registry.
\<close>

datatype op = Construct "targ list" | Pop | Expand "feature list list" comb bool

fun step :: "atoi \<Rightarrow> op \<Rightarrow> template list \<Rightarrow> template list" where
  "step atoi (Construct args) reg = snd (Template_init atoi reg args)"
| "step atoi Pop reg = snd (poptemplate reg)"
| "step atoi (Expand featurelists k skipintersecting) reg =
     registry (Template_expand atoi featurelists k skipintersecting reg)"

definition run :: "atoi \<Rightarrow> op list \<Rightarrow> template list" where
  "run atoi ops = fold (step atoi) ops []"




text \<open>The registry invariant: the template at index \<open>k\<close> has the id that prints \<open>k\<close>.\<close>

definition numbered :: "template list \<Rightarrow> bool" where
  "numbered reg = (map id_str reg = map fmt03d [0..<length reg])"

text \<open>No yielded template has a feature that is a superset of another of its features.\<close>

definition no_superset_pair :: "expand_state \<Rightarrow> bool" where
  "no_superset_pair st = list_all (\<lambda>t. \<not> any_pair issuperset (features t)) (yielded st)"

text \<open>Two more features used as concrete inputs.\<close>

definition Word1 :: feature where
  "Word1 = \<lparr>fclass = Word, positions = [1]\<rparr>"

definition Word01 :: feature where
  "Word01 = \<lparr>fclass = Word, positions = [0, 1]\<rparr>"

section \<open>Properties of Feature\<close>

lemma str_lt_Pos_Word: "str_lt ''Pos'' ''Word''"
  by (simp add: str_lt_def)

lemma str_lt_Word_Pos: "\<not> str_lt ''Word'' ''Pos''"
  by (simp add: str_lt_def)

text \<open>
  C3. The comparison of the source is not the order by class name first and positions
  second: \<^verbatim>\<open>Word([0])\<close> and \<^verbatim>\<open>Pos([1])\<close> are each smaller than the other, because
  the positions are compared whatever the class names are. The order of the
  specification puts \<^verbatim>\<open>Pos([1])\<close> first.
\<close>

theorem feature_lt_not_asymmetric:
  "feature_lt Word0 Pos1 \<and> feature_lt Pos1 Word0 \<and>
   \<not> spec_feature_lt Word0 Pos1 \<and> spec_feature_lt Pos1 Word0"
  by (simp add: feature_lt_def spec_feature_lt_def Word0_def Pos1_def Word_def Pos_def
      str_lt_Pos_Word str_lt_Word_Pos tuple_lt_def)

text \<open>
  What does hold of the constructor: the positions it stores are sorted and free of
  duplicates, and the range form raises \<^verbatim>\<open>ValueError\<close> whenever it raises.
\<close>

lemma Feature_init_sorted_distinct:
  "Feature_init atoi cls pos end = Inr f \<Longrightarrow> sorted (positions f) \<and> distinct (positions f)"
  by (auto simp: Feature_init_def split: if_splits sum.splits pyval.splits)

lemma Feature_init_range_error:
  "end \<noteq> PNone \<Longrightarrow> Feature_init atoi cls pos end = Inl e \<Longrightarrow> e = ValueError"
  by (auto simp: Feature_init_def split: if_splits pyval.splits)

text \<open>
  C9. A position list with an element that \<^verbatim>\<open>int\<close> rejects for its type, as in
  \<^verbatim>\<open>Feature([None])\<close>, raises \<^verbatim>\<open>TypeError\<close>, not the \<^verbatim>\<open>ValueError\<close> the docstring
  promises for illegal position specifications; a malformed string element and the range
  form do raise \<^verbatim>\<open>ValueError\<close>.
\<close>

theorem Feature_init_None_element:
  "Feature_init atoi cls (PList [PNone]) PNone = Inl TypeError \<and>
   Feature_init (\<lambda>s. None) cls (PList [PStr ''x'']) PNone = Inl ValueError \<and>
   Feature_init atoi cls (PInt 2) (PInt 1) = Inl ValueError \<and>
   Feature_init atoi cls (PInt 1) (PStr ''x'') = Inl ValueError"
  by (simp add: Feature_init_def)

section \<open>Rules applicable at a position\<close>








section \<open>Neighbourhood of a position\<close>

lemma fold_insert_set: "fold insert xs A = set xs \<union> A"
  by (induction xs arbitrary: A) auto

lemma py_min_Min: "py_min x xs = Min (insert x (set xs))"
  unfolding py_min_def using Min.set_eq_fold [of x xs] by simp

lemma py_max_Max: "py_max x xs = Max (insert x (set xs))"
  unfolding py_max_def using Max.set_eq_fold [of x xs] by simp

lemma all_offsets_concat: "all_offsets t = insert 0 (set (concat (map positions (features t))))"
  by (auto simp: all_offsets_def)

lemma get_neighborhood_set:
  "get_neighborhood t tokens index =
     insert index {p. 0 \<le> p \<and> p < int (length tokens) \<and>
       p + min_off t \<le> index \<and> index \<le> p + max_off t}"
  by (auto simp: get_neighborhood_def Let_def fold_insert_set py_min_Min py_max_Max
      min_off_def max_off_def all_offsets_concat)





text \<open>
  C4. \<^verbatim>\<open>get_neighborhood\<close> is the index itself together with every position \<open>p\<close> of
  the sequence with \<open>p + min_off \<le> index \<le> p + max_off\<close>; for a template with the
  single feature of positions \<open>[0]\<close> it is the index alone.
\<close>

theorem get_neighborhood_window:
  "get_neighborhood t tokens index =
     insert index {p. 0 \<le> p \<and> p < int (length tokens) \<and>
       p + min_off t \<le> index \<and> index \<le> p + max_off t} \<and>
   (\<forall>f. features t = [f] \<and> positions f = [0] \<longrightarrow> get_neighborhood t tokens index = {index})"
proof -
  have "get_neighborhood t tokens index = {index}" if "features t = [f]" "positions f = [0]" for f
    using that by (auto simp: get_neighborhood_set min_off_def max_off_def all_offsets_def)
  then show ?thesis using get_neighborhood_set by blast
qed

theorem get_neighborhood_window_witness:
  "get_neighborhood \<lparr>features = [Word0], id_str = ''000''\<rparr> the_dog 1 = {1} \<and>
   get_neighborhood Word_around the_dog 0 = {0, 1}"
  using get_neighborhood_window [of "\<lparr>features = [Word0], id_str = ''000''\<rparr>" the_dog 1]
    get_neighborhood_window [of Word_around the_dog 0]
  by (auto simp: Word0_def the_dog_def Word_around_def min_off_def max_off_def all_offsets_def)

section \<open>Generating features over windows\<close>












section \<open>Constructing templates\<close>

lemma fmt03d_0: "fmt03d 0 = ''000''"
  by code_simp

lemma instances_None: "instances args = None \<longleftrightarrow> \<not> shape_a args"
  by (induction args rule: instances.induct) (auto simp: shape_a_def)

lemma build_features_other_shape:
  "\<not> shape_a args \<Longrightarrow> \<not> shape_b0 args \<Longrightarrow> build_features atoi args = Inl TypeError"
  using instances_None [of args]
  by (cases args rule: shape_b0.cases) (auto simp: build_features_def shape_a_def)

text \<open>
  C8, as stated, fails: \<^verbatim>\<open>Template(Word)\<close>, a feature class with no tuple after it, is
  neither a sequence of instances nor a class followed by one or more tuples, and yet a
  template with no features is built and registered.
\<close>

theorem Template_no_tuples_counterexample:
  "\<not> shape_a [FeatureClass Word] \<and> \<not> shape_b [FeatureClass Word] \<and>
   Template_init (\<lambda>s. None) [] [FeatureClass Word] =
     (Inr \<lparr>features = [], id_str = ''000''\<rparr>, [\<lparr>features = [], id_str = ''000''\<rparr>])"
  by (simp add: shape_a_def Template_init_def build_features_def fmt03d_0 Let_def)

text \<open>
  C8, amended. Any argument list other than a sequence of feature instances or a feature
  class followed by zero or more tuples raises \<^verbatim>\<open>TypeError\<close>, and whenever the
  constructor raises, the registry is left as it was.
\<close>

theorem Template_init_other_shape:
  "(\<not> shape_a args \<and> \<not> shape_b0 args \<longrightarrow>
      Template_init atoi ALLTEMPLATES args = (Inl TypeError, ALLTEMPLATES)) \<and>
   (\<forall>e. fst (Template_init atoi ALLTEMPLATES args) = Inl e \<longrightarrow>
      snd (Template_init atoi ALLTEMPLATES args) = ALLTEMPLATES)"
  by (auto simp: Template_init_def build_features_other_shape Let_def split: sum.splits)

theorem Template_init_other_shape_witness:
  "Template_init (\<lambda>s. None) [\<lparr>features = [], id_str = ''000''\<rparr>] [FeatureClass Word, Obj (PInt 1)] =
     (Inl TypeError, [\<lparr>features = [], id_str = ''000''\<rparr>]) \<and>
   Template_init (\<lambda>s. None) [] [Inst Word0, Obj (PTuple [PInt 1, PInt 2])] = (Inl TypeError, []) \<and>
   snd (Template_init (\<lambda>s. None) [] [FeatureClass Word, Obj (PTuple [PInt 2, PInt 1])]) = []"
  using Template_init_other_shape [of "[FeatureClass Word, Obj (PInt 1)]" "\<lambda>s. None"
      "[\<lparr>features = [], id_str = ''000''\<rparr>]"]
    Template_init_other_shape [of "[Inst Word0, Obj (PTuple [PInt 1, PInt 2])]" "\<lambda>s. None" "[]"]
    Template_init_other_shape [of "[FeatureClass Word, Obj (PTuple [PInt 2, PInt 1])]" "\<lambda>s. None" "[]"]
  by (simp add: shape_a_def Template_init_def build_features_def Feature_init_def)

section \<open>Generating templates\<close>

text \<open>
  C2. One call of \<^verbatim>\<open>Template.expand\<close> on the feature lists
  \<^verbatim>\<open>[[Word([0])], [Pos([1])], [Word([0])]]\<close> yields four templates, the last two with the
  same two features in the two possible orders: \<^verbatim>\<open>sorted\<close> leaves the pick
  \<^verbatim>\<open>(Word([0]), Pos([1]))\<close> as \<^verbatim>\<open>Pos([1]), Word([0])\<close> and turns the pick
  \<^verbatim>\<open>(Pos([1]), Word([0]))\<close> into \<^verbatim>\<open>Word([0]), Pos([1])\<close>, since each feature is smaller
  than the other, and the two strings differ. Their canonical sorted sequences are the same.
\<close>

theorem expand_yields_permuted_duplicate:
  "map features (yielded (Template_expand (\<lambda>s. None) [[Word0], [Pos1], [Word0]] CNone True [])) =
     [[Word0], [Pos1], [Pos1, Word0], [Word0, Pos1]] \<and>
   canonical [Pos1, Word0] = canonical [Word0, Pos1]"
  by code_simp

section \<open>Ids and the registry\<close>

lemma nat_of_str_snoc: "nat_of_str (s @ [c]) = 10 * nat_of_str s + (of_char c - 48)"
  by (simp add: nat_of_str_def)

lemma of_char_digit: "d < 10 \<Longrightarrow> (of_char (digit d) :: nat) = 48 + d"
  by (simp add: digit_def)

lemma nat_of_str_str_nat: "nat_of_str (str_nat n) = n"
proof (induction n rule: str_nat.induct)
  case (1 n)
  show ?case
  proof (cases "n < 10")
    case True
    then show ?thesis
      using nat_of_str_snoc [of "[]" "digit n"]
      by (simp add: str_nat.simps [of n] of_char_digit nat_of_str_def)
  next
    case False
    then have "nat_of_str (str_nat (n div 10)) = n div 10" using 1 by simp
    with False show ?thesis
      by (simp add: str_nat.simps [of n] nat_of_str_snoc of_char_digit)
  qed
qed

lemma nat_of_str_zeros: "nat_of_str (replicate k CHR ''0'' @ s) = nat_of_str s"
proof -
  have "foldl (\<lambda>a c. 10 * a + (of_char c - 48)) (0::nat) (replicate k CHR ''0'') = 0"
    by (induction k) simp_all
  then show ?thesis by (simp add: nat_of_str_def)
qed

lemma nat_of_str_fmt03d: "nat_of_str (fmt03d n) = n"
  by (simp add: fmt03d_def nat_of_str_zeros nat_of_str_str_nat)

lemma inj_fmt03d: "inj fmt03d"
  by (rule inj_on_inverseI [where g = nat_of_str]) (simp add: nat_of_str_fmt03d)

lemma numbered_Nil: "numbered []"
  by (simp add: numbered_def)

lemma numbered_snoc: "numbered reg \<Longrightarrow> id_str t = fmt03d (length reg) \<Longrightarrow> numbered (reg @ [t])"
  by (simp add: numbered_def)

lemma numbered_butlast: "numbered reg \<Longrightarrow> numbered (butlast reg)"
proof (cases reg rule: rev_cases)
  case Nil
  then show ?thesis by (simp add: numbered_def)
next
  case (snoc xs x)
  assume "numbered reg"
  with snoc show ?thesis by (simp add: numbered_def)
qed

lemma Template_init_cases:
  obtains (fail) e where "Template_init atoi reg args = (Inl e, reg)"
  | (ok) fs where "build_features atoi args = Inr fs"
      "Template_init atoi reg args =
         (Inr \<lparr>features = fs, id_str = fmt03d (length reg)\<rparr>,
          reg @ [\<lparr>features = fs, id_str = fmt03d (length reg)\<rparr>])"
  by (cases "build_features atoi args") (auto simp: Template_init_def Let_def)

lemma numbered_Template_init: "numbered reg \<Longrightarrow> numbered (snd (Template_init atoi reg args))"
  by (cases rule: Template_init_cases [of atoi reg args]) (auto intro: numbered_snoc)

lemma numbered_poptemplate: "numbered reg \<Longrightarrow> numbered (snd (poptemplate reg))"
  by (simp add: poptemplate_def numbered_butlast numbered_Nil)

lemma for_each_invariant:
  assumes "P st" and "\<And>x s. x \<in> set xs \<Longrightarrow> P s \<Longrightarrow> P (body x s)"
  shows "P (for_each body xs st)"
  using assms by (induction xs arbitrary: st) (auto simp: Let_def)

lemma build_features_instances: "build_features atoi (map Inst fs) = Inr fs"
proof -
  have "instances (map Inst fs) = Some fs" by (induction fs) auto
  then show ?thesis by (simp add: build_features_def)
qed

lemma Template_init_instances:
  "Template_init atoi reg (map Inst fs) =
     (Inr \<lparr>features = fs, id_str = fmt03d (length reg)\<rparr>,
      reg @ [\<lparr>features = fs, id_str = fmt03d (length reg)\<rparr>])"
  by (simp add: Template_init_def build_features_instances Let_def)

lemma expand_pick_registry:
  "numbered (registry st) \<Longrightarrow> numbered (registry (expand_pick atoi skip pick st))"
  by (auto simp: expand_pick_def Template_init_instances Let_def poptemplate_def
      intro: numbered_snoc)

lemma expand_picks_registry:
  "numbered (registry st) \<Longrightarrow> numbered (registry (expand_picks atoi skip picks st))"
  unfolding expand_picks_def
  by (rule for_each_invariant [where P = "\<lambda>s. numbered (registry s)"])
     (auto intro: expand_pick_registry)

lemma expand_size_registry:
  "numbered (registry st) \<Longrightarrow> numbered (registry (expand_size atoi skip fls r st))"
  unfolding expand_size_def
  by (auto intro: for_each_invariant [where P = "\<lambda>s. numbered (registry s)"]
      expand_picks_registry)

lemma Template_expand_registry:
  "numbered reg \<Longrightarrow> numbered (registry (Template_expand atoi fls k skip reg))"
  unfolding Template_expand_def
  by (auto split: prod.splits
      intro!: for_each_invariant [where P = "\<lambda>s. numbered (registry s)"] expand_size_registry)

lemma numbered_step: "numbered reg \<Longrightarrow> numbered (step atoi op reg)"
  by (cases op) (simp_all add: numbered_Template_init numbered_poptemplate Template_expand_registry)

lemma numbered_fold: "numbered reg \<Longrightarrow> numbered (fold (step atoi) ops reg)"
  by (induction ops arbitrary: reg) (simp_all add: numbered_step)

lemma numbered_run: "numbered (run atoi ops)"
  by (simp add: run_def numbered_fold numbered_Nil)

lemma numbered_nth: "numbered reg \<Longrightarrow> k < length reg \<Longrightarrow> id_str (reg ! k) = fmt03d k"
proof -
  assume n: "numbered reg" and k: "k < length reg"
  have "map id_str reg ! k = map fmt03d [0..<length reg] ! k"
    using n by (simp add: numbered_def)
  with k show ?thesis by simp
qed

lemma numbered_distinct: "numbered reg \<Longrightarrow> distinct (map id_str reg)"
  using inj_fmt03d by (simp add: numbered_def distinct_map inj_on_def inj_def)

text \<open>
  C10. After any run of constructions, pops and calls of \<^verbatim>\<open>Template.expand\<close> from the
  empty registry, the template at index \<open>k\<close> of the registry has the id that prints
  \<open>k\<close> with at least three digits, and the ids in the registry are pairwise distinct.
\<close>

theorem registry_ids_by_index:
  "(\<forall>k < length (run atoi ops). id_str (run atoi ops ! k) = fmt03d k) \<and>
   distinct (map id_str (run atoi ops))"
  using numbered_run [of atoi ops] by (simp add: numbered_nth numbered_distinct)

theorem registry_ids_by_index_witness:
  "map id_str (run (\<lambda>s. None)
      [Construct [Inst Word0], Expand [[Word0], [Pos1], [Word0]] CNone True, Pop,
       Construct [FeatureClass Pos, Obj (PTuple [PInt 1, PInt 2])], Construct [Obj PNone]]) =
     [''000'', ''001'', ''002'', ''003'', ''004'']"
proof -
  let ?ops = "[Construct [Inst Word0], Expand [[Word0], [Pos1], [Word0]] CNone True, Pop,
       Construct [FeatureClass Pos, Obj (PTuple [PInt 1, PInt 2])], Construct [Obj PNone]]"
  have len: "length (run (\<lambda>s. None) ?ops) = 5" by code_simp
  have ids: "map fmt03d [0..<5] = [''000'', ''001'', ''002'', ''003'', ''004'']" by code_simp
  have "map id_str (run (\<lambda>s. None) ?ops) = map fmt03d [0..<length (run (\<lambda>s. None) ?ops)]"
    using registry_ids_by_index [of "\<lambda>s. None" ?ops]
    by (intro nth_equalityI) simp_all
  then show ?thesis by (simp only: len ids)
qed






section \<open>No redundant feature in a generated template\<close>

lemma in_set_enumerate_0: "(i, x) \<in> set (enumerate 0 xs) \<longleftrightarrow> i < length xs \<and> xs ! i = x"
  by (simp add: in_set_enumerate_eq)

lemma any_pair_nth:
  "any_pair p xs \<longleftrightarrow> (\<exists>i j. i < length xs \<and> j < length xs \<and> i \<noteq> j \<and> p (xs ! i) (xs ! j))"
proof -
  have "any_pair p xs \<longleftrightarrow>
      (\<exists>i x. (i, x) \<in> set (enumerate 0 xs) \<and>
         (\<exists>j y. (j, y) \<in> set (enumerate 0 xs) \<and> i \<noteq> j \<and> p x y))"
    by (simp add: any_pair_def list_ex_iff Bex_def)
  also have "\<dots> \<longleftrightarrow> (\<exists>i j. i < length xs \<and> j < length xs \<and> i \<noteq> j \<and> p (xs ! i) (xs ! j))"
    by (simp only: in_set_enumerate_0) blast
  finally show ?thesis .
qed

lemma any_pair_Cons:
  "any_pair p (x # xs) \<longleftrightarrow> (\<exists>y \<in> set xs. p x y \<or> p y x) \<or> any_pair p xs"
proof
  assume "any_pair p (x # xs)"
  then obtain i j where ij: "i < Suc (length xs)" "j < Suc (length xs)" "i \<noteq> j"
    "p ((x # xs) ! i) ((x # xs) ! j)"
    by (auto simp: any_pair_nth)
  show "(\<exists>y \<in> set xs. p x y \<or> p y x) \<or> any_pair p xs"
  proof (cases i)
    case 0
    with ij obtain j' where "j = Suc j'" "j' < length xs" by (cases j) auto
    with 0 ij show ?thesis by auto
  next
    case (Suc i')
    show ?thesis
    proof (cases j)
      case 0
      with Suc ij show ?thesis by auto
    next
      case (Suc j')
      with \<open>i = Suc i'\<close> ij have "i' < length xs" "j' < length xs" "i' \<noteq> j'" "p (xs ! i') (xs ! j')"
        by auto
      then show ?thesis unfolding any_pair_nth by blast
    qed
  qed
next
  assume r: "(\<exists>y \<in> set xs. p x y \<or> p y x) \<or> any_pair p xs"
  show "any_pair p (x # xs)"
  proof (rule disjE [OF r])
    assume "\<exists>y \<in> set xs. p x y \<or> p y x"
    then obtain k where k: "k < length xs" "p x (xs ! k) \<or> p (xs ! k) x"
      by (auto simp: in_set_conv_nth)
    show ?thesis
    proof (rule disjE [OF k(2)])
      assume "p x (xs ! k)"
      with k(1) have "0 < length (x # xs) \<and> Suc k < length (x # xs) \<and> 0 \<noteq> Suc k \<and>
          p ((x # xs) ! 0) ((x # xs) ! Suc k)" by simp
      then show ?thesis unfolding any_pair_nth by blast
    next
      assume "p (xs ! k) x"
      with k(1) have "Suc k < length (x # xs) \<and> 0 < length (x # xs) \<and> Suc k \<noteq> 0 \<and>
          p ((x # xs) ! Suc k) ((x # xs) ! 0)" by simp
      then show ?thesis unfolding any_pair_nth by blast
    qed
  next
    assume "any_pair p xs"
    then obtain i j where "i < length xs" "j < length xs" "i \<noteq> j" "p (xs ! i) (xs ! j)"
      by (auto simp: any_pair_nth)
    then have "Suc i < length (x # xs) \<and> Suc j < length (x # xs) \<and> Suc i \<noteq> Suc j \<and>
        p ((x # xs) ! Suc i) ((x # xs) ! Suc j)" by simp
    then show ?thesis unfolding any_pair_nth by blast
  qed
qed

lemma any_pair_move: "any_pair p (ys @ x # zs) = any_pair p (x # ys @ zs)"
proof (induction ys)
  case Nil
  then show ?case by simp
next
  case (Cons a ys)
  let ?A = "\<exists>y \<in> set ys. p a y \<or> p y a"
  let ?B = "\<exists>y \<in> set zs. p a y \<or> p y a"
  let ?C = "\<exists>y \<in> set ys. p x y \<or> p y x"
  let ?D = "\<exists>y \<in> set zs. p x y \<or> p y x"
  let ?E = "p a x \<or> p x a"
  have l: "any_pair p ((a # ys) @ x # zs) \<longleftrightarrow>
        (?A \<or> ?E \<or> ?B) \<or> any_pair p (x # ys @ zs)"
    using any_pair_Cons [of p a "ys @ x # zs"] Cons.IH by (simp add: bex_Un disj_ac)
  have m: "any_pair p (x # ys @ zs) \<longleftrightarrow> (?C \<or> ?D) \<or> any_pair p (ys @ zs)"
    using any_pair_Cons [of p x "ys @ zs"] by (simp add: bex_Un disj_ac)
  have r1: "any_pair p (x # (a # ys) @ zs) \<longleftrightarrow>
        ((p x a \<or> p a x) \<or> ?C \<or> ?D) \<or> any_pair p (a # ys @ zs)"
    using any_pair_Cons [of p x "a # ys @ zs"] by (simp add: bex_Un disj_ac)
  have r2: "any_pair p (a # ys @ zs) \<longleftrightarrow> (?A \<or> ?B) \<or> any_pair p (ys @ zs)"
    using any_pair_Cons [of p a "ys @ zs"] by (simp add: bex_Un disj_ac)
  show ?case unfolding l m r1 r2 by blast
qed

lemma any_pair_mset: "mset xs = mset ys \<Longrightarrow> any_pair p xs = any_pair p ys"
proof (induction xs arbitrary: ys)
  case Nil
  then show ?case by simp
next
  case (Cons x xs)
  then have "set (x # xs) = set ys" by (intro mset_eq_setD)
  then have "x \<in> set ys" by auto
  then obtain as bs where ys: "ys = as @ x # bs" by (auto dest: split_list)
  with Cons.prems have m: "mset xs = mset (as @ bs)" by simp
  then have s: "set xs = set (as @ bs)" by (rule mset_eq_setD)
  have "any_pair p ys = any_pair p (x # as @ bs)" by (simp add: ys any_pair_move)
  also have "\<dots> \<longleftrightarrow> (\<exists>y \<in> set (as @ bs). p x y \<or> p y x) \<or> any_pair p (as @ bs)"
    by (rule any_pair_Cons)
  also have "\<dots> \<longleftrightarrow> (\<exists>y \<in> set xs. p x y \<or> p y x) \<or> any_pair p xs"
    using Cons.IH [OF m] s by simp
  also have "\<dots> \<longleftrightarrow> any_pair p (x # xs)" by (rule any_pair_Cons [symmetric])
  finally show ?case by simp
qed

lemma mset_insert_lt: "mset (insert_lt lt x xs) = add_mset x (mset xs)"
  by (induction xs) auto

lemma mset_foldl_insert_lt:
  "mset (foldl (\<lambda>acc x. insert_lt lt x acc) acc xs) = mset acc + mset xs"
  by (induction xs arbitrary: acc) (auto simp: mset_insert_lt)

lemma mset_py_sorted: "mset (py_sorted lt xs) = mset xs"
  by (simp add: py_sorted_def mset_foldl_insert_lt)

lemma any_pair_py_sorted: "any_pair p (py_sorted lt xs) = any_pair p xs"
  by (rule any_pair_mset) (rule mset_py_sorted)

lemma expand_pick_no_superset:
  "no_superset_pair st \<Longrightarrow> no_superset_pair (expand_pick atoi skip pick st)"
  by (auto simp: no_superset_pair_def expand_pick_def Template_init_instances Let_def
      any_pair_py_sorted)

lemma expand_picks_no_superset:
  "no_superset_pair st \<Longrightarrow> no_superset_pair (expand_picks atoi skip picks st)"
  unfolding expand_picks_def
  by (rule for_each_invariant [where P = no_superset_pair])
     (auto intro: expand_pick_no_superset)

lemma expand_size_no_superset:
  "no_superset_pair st \<Longrightarrow> no_superset_pair (expand_size atoi skip fls r st)"
  unfolding expand_size_def
  by (auto simp: no_superset_pair_def
      intro: for_each_invariant [where P = no_superset_pair, unfolded no_superset_pair_def]
        expand_picks_no_superset [unfolded no_superset_pair_def])

lemma Template_expand_no_superset:
  "no_superset_pair (Template_expand atoi fls k skip reg)"
  unfolding Template_expand_def
  by (auto split: prod.splits simp: no_superset_pair_def
      intro!: for_each_invariant [where P = no_superset_pair, unfolded no_superset_pair_def]
        expand_size_no_superset [unfolded no_superset_pair_def])

text \<open>
  C5. Whatever the feature lists, the value of \<^verbatim>\<open>combinations\<close> and the setting of
  \<^verbatim>\<open>skipintersecting\<close>, no template yielded by \<^verbatim>\<open>Template.expand\<close> has, at two
  different places of its feature sequence, a feature and a feature of the same class
  whose positions it includes; in particular it never contains two different features of
  one class with the positions of one a superset of the positions of the other.
\<close>

theorem expand_no_superset_pair:
  "\<forall>t \<in> set (yielded (Template_expand atoi featurelists k skipintersecting ALLTEMPLATES)).
     (\<forall>i j. i < length (features t) \<and> j < length (features t) \<and> i \<noteq> j \<longrightarrow>
        \<not> issuperset (features t ! i) (features t ! j)) \<and>
     (\<forall>x y. x \<in> set (features t) \<and> y \<in> set (features t) \<and> x \<noteq> y \<and>
        fclass x = fclass y \<longrightarrow> \<not> set (positions y) \<subseteq> set (positions x))"
proof
  fix t
  assume "t \<in> set (yielded (Template_expand atoi featurelists k skipintersecting ALLTEMPLATES))"
  then have n: "\<not> any_pair issuperset (features t)"
    using Template_expand_no_superset [of atoi featurelists k skipintersecting ALLTEMPLATES]
    by (simp add: no_superset_pair_def list_all_iff)
  then have idx: "\<forall>i j. i < length (features t) \<and> j < length (features t) \<and> i \<noteq> j \<longrightarrow>
        \<not> issuperset (features t ! i) (features t ! j)"
    by (auto simp: any_pair_nth)
  have "\<not> set (positions y) \<subseteq> set (positions x)"
    if "x \<in> set (features t)" "y \<in> set (features t)" "x \<noteq> y" "fclass x = fclass y" for x y
  proof -
    from that obtain i j where "i < length (features t)" "j < length (features t)"
      "features t ! i = x" "features t ! j = y" by (auto simp: in_set_conv_nth)
    moreover from this that(3) have "i \<noteq> j" by auto
    ultimately have "\<not> issuperset x y" using idx by blast
    with that(4) show ?thesis by (simp add: issuperset_def)
  qed
  with idx show "(\<forall>i j. i < length (features t) \<and> j < length (features t) \<and> i \<noteq> j \<longrightarrow>
        \<not> issuperset (features t ! i) (features t ! j)) \<and>
     (\<forall>x y. x \<in> set (features t) \<and> y \<in> set (features t) \<and> x \<noteq> y \<and>
        fclass x = fclass y \<longrightarrow> \<not> set (positions y) \<subseteq> set (positions x))"
    by blast
qed

theorem expand_no_superset_pair_witness:
  "map features (yielded (Template_expand (\<lambda>s. None) [[Word0, Word01], [Word1]] CNone False [])) =
     [[Word0], [Word01], [Word1], [Word0, Word1]] \<and>
   \<not> issuperset Word0 Word1 \<and> issuperset Word01 Word1"
proof -
  let ?E = "Template_expand (\<lambda>s. None) [[Word0, Word01], [Word1]] CNone False []"
  let ?t = "\<lparr>features = [Word0, Word1], id_str = ''003''\<rparr>"
  have y: "yielded ?E =
     [\<lparr>features = [Word0], id_str = ''000''\<rparr>, \<lparr>features = [Word01], id_str = ''001''\<rparr>,
      \<lparr>features = [Word1], id_str = ''002''\<rparr>, ?t]"
    by code_simp
  then have "?t \<in> set (yielded ?E)" by simp
  then have "\<forall>i j. i < length (features ?t) \<and> j < length (features ?t) \<and> i \<noteq> j \<longrightarrow>
        \<not> issuperset (features ?t ! i) (features ?t ! j)"
    using expand_no_superset_pair [of "\<lambda>s. None" "[[Word0, Word01], [Word1]]" CNone False "[]"]
    by blast
  then have "0 < length (features ?t) \<and> 1 < length (features ?t) \<and> (0::nat) \<noteq> 1 \<longrightarrow>
        \<not> issuperset (features ?t ! 0) (features ?t ! 1)"
    by blast
  then have n: "\<not> issuperset Word0 Word1" by simp
  have s: "issuperset Word01 Word1" by code_simp
  show ?thesis using y n s by simp
qed

end
